theory Spec2Isabelle
  imports Main "HOL-Library.Word"
begin

unbundle bit_operations_syntax

section \<open>Enumerated types\<close>

text \<open>
  A C++ enumeration is a distinct type around an underlying integer. The scalar
  converter returns \<^verbatim>\<open>static_cast<Dst>(0)\<close> and the flag converter returns
  \<^verbatim>\<open>static_cast<Dst>(dst)\<close> for an accumulated integer, so a value of an
  enumeration need not be one of its named enumerators: an enumeration is modelled as
  its underlying integer under a constructor. The first type argument only names the
  enumeration (it keeps \<^verbatim>\<open>lib_a::Color\<close> and \<^verbatim>\<open>lib_b::Color\<close> apart, as the
  C++ types are); the second is the underlying type, a machine word in every use below.
  \<open>Enum\<close> is \<^verbatim>\<open>static_cast<E>\<close> from the underlying type, \<open>underlying\<close> is
  \<^verbatim>\<open>static_cast<std::underlying_type_t<E>>\<close>.
\<close>

datatype ('e, 'u) cpp_enum = Enum (underlying: 'u)

section \<open>The scalar converter (enum\_cast.cpp)\<close>

text \<open>
  \<^verbatim>\<open>
  for (const auto& mapping : MappingTraits::mappings) {
      if (std::get<Src>(mapping) == src) {
          return std::get<Dst>(mapping);
      }
  }
  return static_cast<Dst>(0);
  \<close>
  The template arguments \<open>Src\<close> and \<open>Dst\<close> select a slot of the tuple each:
  \<open>get_src\<close> is \<^verbatim>\<open>std::get<Src>\<close>, \<open>get_dst\<close> is \<^verbatim>\<open>std::get<Dst>\<close>. The
  table \<^verbatim>\<open>MappingTraits::mappings\<close> is the list \<open>mappings\<close>, in declared order.
\<close>

fun enum_cast ::
  "('m \<Rightarrow> ('s, 'v::len word) cpp_enum) \<Rightarrow> ('m \<Rightarrow> ('d, 'w::len word) cpp_enum) \<Rightarrow> 'm list
     \<Rightarrow> ('s, 'v word) cpp_enum \<Rightarrow> ('d, 'w word) cpp_enum" where
  "enum_cast get_src get_dst [] src = Enum 0"
| "enum_cast get_src get_dst (mapping # mappings) src =
     (if get_src mapping = src then get_dst mapping
      else enum_cast get_src get_dst mappings src)"

subsection \<open>The example enumerations and tables of enum\_cast.cpp\<close>

text \<open>
  \<^verbatim>\<open>enum class\<close> without an explicit base has underlying type \<^verbatim>\<open>int\<close>: 32 bits.
  \<^verbatim>\<open>
  namespace lib_a { enum class Color { Red = 3, Green = 4, Blue = 5 };
                    enum class Shape { Circle = 1, Square = 9, Triangle = 16 }; }
  namespace lib_b { enum class Color { Red, Green, Blue, Yellow };
                    enum class Shape { Circle, Square, Triangle }; }
  namespace lib_c { enum class Color { Red = 9, Green = 100, Blue = 101 };
                    enum class Shape { Circle = 2, Square = 3, Triangle = 4 }; }
  \<close>
\<close>

datatype lib_a_Color_name = Lib_a_Color_name
datatype lib_b_Color_name = Lib_b_Color_name
datatype lib_c_Color_name = Lib_c_Color_name
datatype lib_a_Shape_name = Lib_a_Shape_name
datatype lib_b_Shape_name = Lib_b_Shape_name
datatype lib_c_Shape_name = Lib_c_Shape_name

type_synonym lib_a_Color = "(lib_a_Color_name, 32 word) cpp_enum"
type_synonym lib_b_Color = "(lib_b_Color_name, 32 word) cpp_enum"
type_synonym lib_c_Color = "(lib_c_Color_name, 32 word) cpp_enum"
type_synonym lib_a_Shape = "(lib_a_Shape_name, 32 word) cpp_enum"
type_synonym lib_b_Shape = "(lib_b_Shape_name, 32 word) cpp_enum"
type_synonym lib_c_Shape = "(lib_c_Shape_name, 32 word) cpp_enum"

abbreviation lib_a_Color_Red :: lib_a_Color where "lib_a_Color_Red \<equiv> Enum 3"
abbreviation lib_a_Color_Green :: lib_a_Color where "lib_a_Color_Green \<equiv> Enum 4"
abbreviation lib_a_Color_Blue :: lib_a_Color where "lib_a_Color_Blue \<equiv> Enum 5"

abbreviation lib_b_Color_Red :: lib_b_Color where "lib_b_Color_Red \<equiv> Enum 0"
abbreviation lib_b_Color_Green :: lib_b_Color where "lib_b_Color_Green \<equiv> Enum 1"
abbreviation lib_b_Color_Blue :: lib_b_Color where "lib_b_Color_Blue \<equiv> Enum 2"
abbreviation lib_b_Color_Yellow :: lib_b_Color where "lib_b_Color_Yellow \<equiv> Enum 3"

abbreviation lib_c_Color_Red :: lib_c_Color where "lib_c_Color_Red \<equiv> Enum 9"
abbreviation lib_c_Color_Green :: lib_c_Color where "lib_c_Color_Green \<equiv> Enum 100"
abbreviation lib_c_Color_Blue :: lib_c_Color where "lib_c_Color_Blue \<equiv> Enum 101"

abbreviation lib_a_Shape_Circle :: lib_a_Shape where "lib_a_Shape_Circle \<equiv> Enum 1"
abbreviation lib_a_Shape_Square :: lib_a_Shape where "lib_a_Shape_Square \<equiv> Enum 9"
abbreviation lib_a_Shape_Triangle :: lib_a_Shape where "lib_a_Shape_Triangle \<equiv> Enum 16"

abbreviation lib_b_Shape_Circle :: lib_b_Shape where "lib_b_Shape_Circle \<equiv> Enum 0"
abbreviation lib_b_Shape_Square :: lib_b_Shape where "lib_b_Shape_Square \<equiv> Enum 1"
abbreviation lib_b_Shape_Triangle :: lib_b_Shape where "lib_b_Shape_Triangle \<equiv> Enum 2"

abbreviation lib_c_Shape_Circle :: lib_c_Shape where "lib_c_Shape_Circle \<equiv> Enum 2"
abbreviation lib_c_Shape_Square :: lib_c_Shape where "lib_c_Shape_Square \<equiv> Enum 3"
abbreviation lib_c_Shape_Triangle :: lib_c_Shape where "lib_c_Shape_Triangle \<equiv> Enum 4"

text \<open>
  \<^verbatim>\<open>using mapping_type = std::tuple<lib_a::Color, lib_b::Color, lib_c::Color>;\<close>
  A tuple is a HOL tuple; \<^verbatim>\<open>std::get<T>\<close> on it is the projection to the one slot
  of type \<open>T\<close>.
\<close>

type_synonym Color_mapping_type = "lib_a_Color \<times> lib_b_Color \<times> lib_c_Color"
type_synonym Shape_mapping_type = "lib_a_Shape \<times> lib_b_Shape \<times> lib_c_Shape"

fun get_lib_a_Color :: "Color_mapping_type \<Rightarrow> lib_a_Color" where
  "get_lib_a_Color (a, b, c) = a"

fun get_lib_b_Color :: "Color_mapping_type \<Rightarrow> lib_b_Color" where
  "get_lib_b_Color (a, b, c) = b"

fun get_lib_c_Color :: "Color_mapping_type \<Rightarrow> lib_c_Color" where
  "get_lib_c_Color (a, b, c) = c"

fun get_lib_a_Shape :: "Shape_mapping_type \<Rightarrow> lib_a_Shape" where
  "get_lib_a_Shape (a, b, c) = a"

fun get_lib_b_Shape :: "Shape_mapping_type \<Rightarrow> lib_b_Shape" where
  "get_lib_b_Shape (a, b, c) = b"

fun get_lib_c_Shape :: "Shape_mapping_type \<Rightarrow> lib_c_Shape" where
  "get_lib_c_Shape (a, b, c) = c"

text \<open>\<^verbatim>\<open>enum_mapping_traits<EnumColorTag>::mappings\<close>\<close>

definition Color_mappings :: "Color_mapping_type list" where
  "Color_mappings =
     [ (lib_a_Color_Red, lib_b_Color_Red, lib_c_Color_Red),
       (lib_a_Color_Green, lib_b_Color_Green, lib_c_Color_Green),
       (lib_a_Color_Blue, lib_b_Color_Blue, lib_c_Color_Blue) ]"

text \<open>\<^verbatim>\<open>enum_mapping_traits<EnumShapeTag>::mappings\<close>\<close>

definition Shape_mappings :: "Shape_mapping_type list" where
  "Shape_mappings =
     [ (lib_a_Shape_Circle, lib_b_Shape_Circle, lib_c_Shape_Circle),
       (lib_a_Shape_Square, lib_b_Shape_Square, lib_c_Shape_Square),
       (lib_a_Shape_Triangle, lib_b_Shape_Triangle, lib_c_Shape_Triangle) ]"

section \<open>The flag-bits converter (enum\_flag\_bits\_cast.cpp)\<close>

text \<open>
  \<^verbatim>\<open>
  using UnderlyingType = std::underlying_type_t<Dst>;
  UnderlyingType dst;
  for (const auto& mapping : MappingTraits::mappings) {
      if (std::get<Src>(mapping) & src) {
          dst |= static_cast<UnderlyingType>(std::get<Dst>(mapping));
      }
  }
  return static_cast<Dst>(dst);
  \<close>
  The loop, with the accumulator \<open>dst\<close> passed along. \<^verbatim>\<open>&\<close> on two values of an
  unscoped enumeration is the built-in one on their promoted underlying values, and
  the condition holds when the result is not zero.
\<close>

fun enum_flag_bits_loop ::
  "('m \<Rightarrow> ('s, 'v::len word) cpp_enum) \<Rightarrow> ('m \<Rightarrow> ('d, 'w::len word) cpp_enum) \<Rightarrow> 'm list
     \<Rightarrow> ('s, 'v word) cpp_enum \<Rightarrow> 'w word \<Rightarrow> 'w word" where
  "enum_flag_bits_loop get_src get_dst [] src dst = dst"
| "enum_flag_bits_loop get_src get_dst (mapping # mappings) src dst =
     enum_flag_bits_loop get_src get_dst mappings src
       (if underlying (get_src mapping) AND underlying src \<noteq> 0
        then dst OR underlying (get_dst mapping) else dst)"

text \<open>
  The declaration \<^verbatim>\<open>UnderlyingType dst;\<close> has no initialiser, so the loop starts
  from whatever the storage of \<open>dst\<close> holds. The function does not determine that
  value: it is the first argument of the model, \<open>indeterminate\<close>, and a statement
  about what the source function returns holds for every value of it.
\<close>

definition enum_flag_bits_cast ::
  "'w word \<Rightarrow> ('m \<Rightarrow> ('s, 'v::len word) cpp_enum) \<Rightarrow> ('m \<Rightarrow> ('d, 'w::len word) cpp_enum)
     \<Rightarrow> 'm list \<Rightarrow> ('s, 'v word) cpp_enum \<Rightarrow> ('d, 'w word) cpp_enum" where
  "enum_flag_bits_cast indeterminate get_src get_dst mappings src =
     Enum (enum_flag_bits_loop get_src get_dst mappings src indeterminate)"

text \<open>
  \<^verbatim>\<open>
  template <EnumConcept Enum>
  Enum operator|(Enum a, Enum b)
  {
      using UnderlyingType = std::underlying_type_t<Enum>;
      return static_cast<Enum>(static_cast<UnderlyingType>(a) | static_cast<UnderlyingType>(b));
  }
  \<close>
\<close>

definition operator_or ::
  "('e, 'w::len word) cpp_enum \<Rightarrow> ('e, 'w word) cpp_enum \<Rightarrow> ('e, 'w word) cpp_enum" where
  "operator_or a b = Enum (underlying a OR underlying b)"

subsection \<open>The example enumerations and table of enum\_flag\_bits\_cast.cpp\<close>

text \<open>
  \<^verbatim>\<open>
  namespace lib_a { enum Permission { None = 0x00, Read = 0x01, Write = 0x02, Execute = 0x04,
      ReadWrite = Read | Write, ReadExecute = Read | Execute,
      WriteExecute = Write | Execute, All = Read | Write | Execute }; }
  namespace lib_b { enum Permission { NONE = 0, READ = 1 << 2, WRITE = 1 << 3,
      EXECUTE = 1 << 4 }; }
  \<close>
  Neither enumeration fixes its underlying type; with these enumerators it is a 32-bit
  integer type.
\<close>

datatype lib_a_Permission_name = Lib_a_Permission_name
datatype lib_b_Permission_name = Lib_b_Permission_name

type_synonym lib_a_Permission = "(lib_a_Permission_name, 32 word) cpp_enum"
type_synonym lib_b_Permission = "(lib_b_Permission_name, 32 word) cpp_enum"

abbreviation lib_a_None :: lib_a_Permission where "lib_a_None \<equiv> Enum 0"
abbreviation lib_a_Read :: lib_a_Permission where "lib_a_Read \<equiv> Enum 1"
abbreviation lib_a_Write :: lib_a_Permission where "lib_a_Write \<equiv> Enum 2"
abbreviation lib_a_Execute :: lib_a_Permission where "lib_a_Execute \<equiv> Enum 4"
abbreviation lib_a_ReadWrite :: lib_a_Permission where "lib_a_ReadWrite \<equiv> Enum (1 OR 2)"
abbreviation lib_a_ReadExecute :: lib_a_Permission where "lib_a_ReadExecute \<equiv> Enum (1 OR 4)"
abbreviation lib_a_WriteExecute :: lib_a_Permission where "lib_a_WriteExecute \<equiv> Enum (2 OR 4)"
abbreviation lib_a_All :: lib_a_Permission where "lib_a_All \<equiv> Enum (1 OR 2 OR 4)"

abbreviation lib_b_NONE :: lib_b_Permission where "lib_b_NONE \<equiv> Enum 0"
abbreviation lib_b_READ :: lib_b_Permission where "lib_b_READ \<equiv> Enum (push_bit 2 1)"
abbreviation lib_b_WRITE :: lib_b_Permission where "lib_b_WRITE \<equiv> Enum (push_bit 3 1)"
abbreviation lib_b_EXECUTE :: lib_b_Permission where "lib_b_EXECUTE \<equiv> Enum (push_bit 4 1)"

type_synonym Permission_mapping_type = "lib_a_Permission \<times> lib_b_Permission"

fun get_lib_a_Permission :: "Permission_mapping_type \<Rightarrow> lib_a_Permission" where
  "get_lib_a_Permission (a, b) = a"

fun get_lib_b_Permission :: "Permission_mapping_type \<Rightarrow> lib_b_Permission" where
  "get_lib_b_Permission (a, b) = b"

text \<open>\<^verbatim>\<open>enum_mapping_traits<PermissionTag>::mappings\<close>\<close>

definition Permission_mappings :: "Permission_mapping_type list" where
  "Permission_mappings =
     [ (lib_a_None, lib_b_NONE),
       (lib_a_Read, lib_b_READ),
       (lib_a_Write, lib_b_WRITE),
       (lib_a_Execute, lib_b_EXECUTE) ]"

section \<open>The category registry and the static assertion\<close>

text \<open>
  \<^verbatim>\<open>
  struct EnumColorTag {};
  template <> struct enum_category<lib_a::Color> { using type = EnumColorTag; };
  ...
  \<close>
  The category of an enumeration is resolved when a converter is instantiated, not
  when it runs. To state what instantiation does, the enumerations and the tags of
  both files are named by values, and \<^verbatim>\<open>enum_category_t\<close> is the function between
  them that the specialisations declare.
\<close>

datatype enum_type =
  Lib_a_Color | Lib_b_Color | Lib_c_Color
| Lib_a_Shape | Lib_b_Shape | Lib_c_Shape
| Lib_a_Permission | Lib_b_Permission

datatype category_tag = EnumColorTag | EnumShapeTag | PermissionTag

fun enum_category_t :: "enum_type \<Rightarrow> category_tag" where
  "enum_category_t Lib_a_Color = EnumColorTag"
| "enum_category_t Lib_b_Color = EnumColorTag"
| "enum_category_t Lib_c_Color = EnumColorTag"
| "enum_category_t Lib_a_Shape = EnumShapeTag"
| "enum_category_t Lib_b_Shape = EnumShapeTag"
| "enum_category_t Lib_c_Shape = EnumShapeTag"
| "enum_category_t Lib_a_Permission = PermissionTag"
| "enum_category_t Lib_b_Permission = PermissionTag"

text \<open>
  \<^verbatim>\<open>
  static_assert(std::is_same_v<enum_category_t<Src>, enum_category_t<Dst>>,
               "Source and destination enums must be of the same category");
  \<close>
  is the first statement of both converters. An instantiation whose assertion fails is
  a build error carrying the message, and there is then no function to call; one whose
  assertion holds is the converter. \<open>category_of\<close> is the registry in force
  (\<open>enum_category_t\<close> for the two files).
\<close>

datatype compile_error = Static_assert_failed string

definition static_assert_same_category ::
  "('t \<Rightarrow> 'c) \<Rightarrow> 't \<Rightarrow> 't \<Rightarrow> 'f \<Rightarrow> compile_error + 'f" where
  "static_assert_same_category category_of Dst Src body =
     (if category_of Src = category_of Dst then Inr body
      else Inl (Static_assert_failed
        ''Source and destination enums must be of the same category''))"

definition instantiate_enum_cast ::
  "('t \<Rightarrow> 'c) \<Rightarrow> 't \<Rightarrow> 't
     \<Rightarrow> ('m \<Rightarrow> ('s, 'v::len word) cpp_enum) \<Rightarrow> ('m \<Rightarrow> ('d, 'w::len word) cpp_enum) \<Rightarrow> 'm list
     \<Rightarrow> compile_error + (('s, 'v word) cpp_enum \<Rightarrow> ('d, 'w word) cpp_enum)" where
  "instantiate_enum_cast category_of Dst Src get_src get_dst mappings =
     static_assert_same_category category_of Dst Src (enum_cast get_src get_dst mappings)"

definition instantiate_enum_flag_bits_cast ::
  "('t \<Rightarrow> 'c) \<Rightarrow> 't \<Rightarrow> 't
     \<Rightarrow> ('m \<Rightarrow> ('s, 'v::len word) cpp_enum) \<Rightarrow> ('m \<Rightarrow> ('d, 'w::len word) cpp_enum) \<Rightarrow> 'm list
     \<Rightarrow> compile_error + ('w word \<Rightarrow> ('s, 'v word) cpp_enum \<Rightarrow> ('d, 'w word) cpp_enum)" where
  "instantiate_enum_flag_bits_cast category_of Dst Src get_src get_dst mappings =
     static_assert_same_category category_of Dst Src
       (\<lambda>indeterminate. enum_flag_bits_cast indeterminate get_src get_dst mappings)"

section \<open>The flag conversion as the specification words it\<close>

text \<open>
  The specification's algorithm for the flag converter: the bitwise OR, over the
  entries whose \<open>Src\<close>-slot ANDed with the input is not zero, of the underlying
  representations of their \<open>Dst\<close>-slots, accumulated from zero, in table order.
  This definition follows the specification, not the source; it is what
  \<open>enum_flag_bits_cast\<close> is compared with.
\<close>

definition flag_bits_union ::
  "('m \<Rightarrow> ('s, 'v::len word) cpp_enum) \<Rightarrow> ('m \<Rightarrow> ('d, 'w::len word) cpp_enum) \<Rightarrow> 'm list
     \<Rightarrow> ('s, 'v word) cpp_enum \<Rightarrow> ('d, 'w word) cpp_enum" where
  "flag_bits_union get_src get_dst mappings v =
     Enum (fold (\<lambda>m acc. acc OR underlying (get_dst m))
             (filter (\<lambda>m. underlying (get_src m) AND underlying v \<noteq> 0) mappings) 0)"

section \<open>Properties of the scalar converter\<close>

lemma enum_cast_skip_prefix:
  "\<forall>x\<in>set before. get_src x \<noteq> v \<Longrightarrow>
     enum_cast get_src get_dst (before @ rest) v = enum_cast get_src get_dst rest v"
  by (induction before) simp_all

lemma enum_cast_no_match:
  "\<forall>x\<in>set mappings. get_src x \<noteq> v \<Longrightarrow> enum_cast get_src get_dst mappings v = Enum 0"
  by (induction mappings) simp_all

lemma enum_cast_find:
  "enum_cast get_src get_dst mappings v =
     (case find (\<lambda>m. get_src m = v) mappings of None \<Rightarrow> Enum 0 | Some m \<Rightarrow> get_dst m)"
  by (induction mappings) simp_all

lemma enum_cast_hit:
  "\<exists>m\<in>set mappings. get_src m = v \<Longrightarrow>
     \<exists>m\<in>set mappings. get_src m = v \<and> enum_cast get_src get_dst mappings v = get_dst m"
  by (induction mappings) auto

text \<open>
  C1. For a source value \<open>v\<close> that some entry of the table has in its \<open>Src\<close>-slot,
  \<open>enum_cast\<close> returns the \<open>Dst\<close>-slot of the first such entry in declared order:
  the table splits into the entries before it, none of which has \<open>v\<close> in its
  \<open>Src\<close>-slot, the entry itself, and the entries after it, which play no part.
\<close>

theorem enum_cast_first_match:
  assumes "\<exists>m\<in>set mappings. get_src m = v"
  shows "\<exists>before m after. mappings = before @ m # after
           \<and> (\<forall>x\<in>set before. get_src x \<noteq> v) \<and> get_src m = v
           \<and> enum_cast get_src get_dst mappings v = get_dst m"
proof -
  from assms obtain before m after where
    split: "mappings = before @ m # after" and hit: "get_src m = v"
    and miss: "\<forall>x\<in>set before. get_src x \<noteq> v"
    using split_list_first_prop [of mappings "\<lambda>m. get_src m = v"] by blast
  have "enum_cast get_src get_dst mappings v = enum_cast get_src get_dst (m # after) v"
    unfolding split using miss by (rule enum_cast_skip_prefix)
  also have "\<dots> = get_dst m" using hit by simp
  finally show ?thesis using split hit miss by blast
qed

theorem enum_cast_first_match_witness:
  "(\<exists>m\<in>set Color_mappings. get_lib_c_Color m = lib_c_Color_Green)
   \<and> (\<exists>before m after. Color_mappings = before @ m # after
           \<and> (\<forall>x\<in>set before. get_lib_c_Color x \<noteq> lib_c_Color_Green)
           \<and> get_lib_c_Color m = lib_c_Color_Green
           \<and> enum_cast get_lib_c_Color get_lib_a_Color Color_mappings lib_c_Color_Green
               = get_lib_a_Color m)"
proof -
  have h: "\<exists>m\<in>set Color_mappings. get_lib_c_Color m = lib_c_Color_Green"
    by (simp add: Color_mappings_def)
  from h enum_cast_first_match [OF h, of get_lib_a_Color] show ?thesis by blast
qed

text \<open>
  C2. For a source value \<open>v\<close> that no entry of the table has in its \<open>Src\<close>-slot,
  \<open>enum_cast\<close> returns \<^verbatim>\<open>static_cast<Dst>(0)\<close>, the value of \<open>Dst\<close> whose
  underlying representation is 0. The result is a plain value of \<open>Dst\<close>: the
  function has no error result.
\<close>

theorem enum_cast_miss:
  "\<forall>m\<in>set mappings. get_src m \<noteq> v \<Longrightarrow> enum_cast get_src get_dst mappings v = Enum 0"
  by (rule enum_cast_no_match)

theorem enum_cast_miss_witness:
  "lib_b_Color_Yellow \<notin> set (map get_lib_b_Color Color_mappings)
   \<and> enum_cast get_lib_b_Color get_lib_a_Color Color_mappings lib_b_Color_Yellow = Enum 0"
proof -
  have h: "\<forall>m\<in>set Color_mappings. get_lib_b_Color m \<noteq> lib_b_Color_Yellow"
    by (simp add: Color_mappings_def)
  have "lib_b_Color_Yellow \<notin> set (map get_lib_b_Color Color_mappings)"
    by (simp add: Color_mappings_def)
  with enum_cast_miss [OF h, of get_lib_a_Color] show ?thesis by blast
qed

text \<open>
  C5. Round trip. Let \<open>v\<close> be the \<open>A\<close>-slot of an entry \<open>m\<close> of the table, and let
  the table be a bijection on that value: the entries with \<open>v\<close> in their \<open>A\<close>-slot
  are exactly the entries with the \<open>B\<close>-slot of \<open>m\<close> in their \<open>B\<close>-slot. Then
  converting \<open>v\<close> to \<open>B\<close> and the result back to \<open>A\<close> gives \<open>v\<close>.
\<close>

theorem enum_cast_round_trip:
  assumes entry: "m \<in> set mappings" "get_a m = v"
    and bij: "\<forall>m'\<in>set mappings. (get_a m' = v) = (get_b m' = get_b m)"
  shows "enum_cast get_b get_a mappings (enum_cast get_a get_b mappings v) = v"
proof -
  from entry have "\<exists>m\<in>set mappings. get_a m = v" by blast
  then obtain m1 where m1: "m1 \<in> set mappings" "get_a m1 = v"
    and there: "enum_cast get_a get_b mappings v = get_b m1"
    using enum_cast_hit [of mappings get_a v get_b] by blast
  from bij m1 have b: "get_b m1 = get_b m" by blast
  with m1 have "\<exists>m\<in>set mappings. get_b m = get_b m1" by blast
  then obtain m2 where m2: "m2 \<in> set mappings" "get_b m2 = get_b m1"
    and again: "enum_cast get_b get_a mappings (get_b m1) = get_a m2"
    using enum_cast_hit [of mappings get_b "get_b m1" get_a] by blast
  from bij m2 b have "get_a m2 = v" by simp
  with there again show ?thesis by simp
qed

theorem enum_cast_round_trip_witness:
  "(lib_a_Color_Green, lib_b_Color_Green, lib_c_Color_Green) \<in> set Color_mappings
   \<and> list_all (\<lambda>m'. (get_lib_c_Color m' = lib_c_Color_Green)
          = (get_lib_a_Color m' = lib_a_Color_Green)) Color_mappings
   \<and> enum_cast get_lib_a_Color get_lib_c_Color Color_mappings
       (enum_cast get_lib_c_Color get_lib_a_Color Color_mappings lib_c_Color_Green)
     = lib_c_Color_Green"
proof -
  let ?m = "(lib_a_Color_Green, lib_b_Color_Green, lib_c_Color_Green)"
  have h1: "?m \<in> set Color_mappings" by (simp add: Color_mappings_def)
  have h2: "get_lib_c_Color ?m = lib_c_Color_Green" by simp
  have h3: "\<forall>m'\<in>set Color_mappings. (get_lib_c_Color m' = lib_c_Color_Green)
          = (get_lib_a_Color m' = get_lib_a_Color ?m)"
    by (simp add: Color_mappings_def)
  from h3 have h4: "list_all (\<lambda>m'. (get_lib_c_Color m' = lib_c_Color_Green)
          = (get_lib_a_Color m' = lib_a_Color_Green)) Color_mappings"
    by (simp add: list_all_iff)
  from enum_cast_round_trip [OF h1 h2 h3] h1 h4 show ?thesis by blast
qed

text \<open>
  C7. The Color scenario of \<^verbatim>\<open>main\<close>: with the declared Color table,
  \<^verbatim>\<open>enum_cast<lib_a::Color>(lib_c::Color::Red)\<close> is \<^verbatim>\<open>lib_a::Color::Red\<close> and
  \<^verbatim>\<open>enum_cast<lib_b::Color>(lib_a::Color::Red)\<close> is \<^verbatim>\<open>lib_b::Color::Red\<close>.
\<close>

theorem Color_scenario:
  "enum_cast get_lib_c_Color get_lib_a_Color Color_mappings lib_c_Color_Red = lib_a_Color_Red
   \<and> enum_cast get_lib_a_Color get_lib_b_Color Color_mappings lib_a_Color_Red = lib_b_Color_Red"
  by (simp add: Color_mappings_def)

section \<open>Properties of the flag-bits converter\<close>

lemma enum_flag_bits_loop_fold:
  "enum_flag_bits_loop get_src get_dst mappings v dst =
     fold (\<lambda>m acc. acc OR underlying (get_dst m))
       (filter (\<lambda>m. underlying (get_src m) AND underlying v \<noteq> 0) mappings) dst"
  by (induction mappings arbitrary: dst) simp_all

lemma enum_flag_bits_loop_accumulator:
  "enum_flag_bits_loop get_src get_dst mappings v dst =
     dst OR enum_flag_bits_loop get_src get_dst mappings v 0"
proof (induction mappings arbitrary: dst)
  case Nil
  show ?case by simp
next
  case (Cons m ms)
  show ?case
    using Cons.IH [of "dst OR underlying (get_dst m)"] Cons.IH [of "underlying (get_dst m)"]
      Cons.IH [of dst]
    by (simp add: ac_simps)
qed

lemma enum_flag_bits_loop_append:
  "enum_flag_bits_loop get_src get_dst (xs @ ys) v dst =
     enum_flag_bits_loop get_src get_dst ys v (enum_flag_bits_loop get_src get_dst xs v dst)"
  by (induction xs arbitrary: dst) simp_all

text \<open>
  What the source function returns: the OR of the specification's union with the
  value the accumulator held before the loop. With that value 0 the two agree.
\<close>

lemma enum_flag_bits_cast_accumulator:
  "enum_flag_bits_cast dst get_src get_dst mappings v =
     Enum (dst OR underlying (flag_bits_union get_src get_dst mappings v))"
  unfolding enum_flag_bits_cast_def flag_bits_union_def cpp_enum.sel
  by (subst enum_flag_bits_loop_accumulator) (simp add: enum_flag_bits_loop_fold)

lemma enum_flag_bits_cast_zero_initialised:
  "enum_flag_bits_cast 0 get_src get_dst mappings v = flag_bits_union get_src get_dst mappings v"
  by (simp add: enum_flag_bits_cast_accumulator)

text \<open>
  C3. The claim is that \<open>enum_flag_bits_cast\<close> is \<open>flag_bits_union\<close>, hence the zero
  value of \<open>Dst\<close> when no entry intersects the input. The source leaves the
  accumulator uninitialised. With the bit pattern \<^verbatim>\<open>0x40\<close> in its storage, the call of
  \<^verbatim>\<open>main\<close>, \<^verbatim>\<open>enum_flag_bits_cast<lib_a::Permission>(lib_b::READ | lib_b::WRITE)\<close>,
  returns \<^verbatim>\<open>0x43\<close> where the union is \<^verbatim>\<open>lib_a::ReadWrite\<close>, and the conversion
  of \<^verbatim>\<open>lib_b::NONE\<close>, which no entry intersects, returns \<^verbatim>\<open>0x40\<close>, not zero.
\<close>

theorem enum_flag_bits_cast_uninitialised_accumulator:
  "enum_flag_bits_cast 64 get_lib_b_Permission get_lib_a_Permission Permission_mappings
      (operator_or lib_b_READ lib_b_WRITE) = Enum 67
   \<and> flag_bits_union get_lib_b_Permission get_lib_a_Permission Permission_mappings
      (operator_or lib_b_READ lib_b_WRITE) = lib_a_ReadWrite
   \<and> enum_flag_bits_cast 64 get_lib_b_Permission get_lib_a_Permission Permission_mappings
      lib_b_NONE = Enum 64
   \<and> flag_bits_union get_lib_b_Permission get_lib_a_Permission Permission_mappings
      lib_b_NONE = Enum 0"
  by (simp add: enum_flag_bits_cast_def flag_bits_union_def Permission_mappings_def
      operator_or_def)

text \<open>
  C4. The scalar converter is a function of the table and the input alone. The flag
  converter is not: two invocations on the same input, \<^verbatim>\<open>lib_b::READ\<close>, return
  \<^verbatim>\<open>lib_a::Read\<close> when the accumulator's storage holds 0 and \<^verbatim>\<open>0x41\<close> when it
  holds \<^verbatim>\<open>0x40\<close>.
\<close>

theorem enum_flag_bits_cast_depends_on_storage:
  "enum_flag_bits_cast 0 get_lib_b_Permission get_lib_a_Permission Permission_mappings
      lib_b_READ = lib_a_Read
   \<and> enum_flag_bits_cast 64 get_lib_b_Permission get_lib_a_Permission Permission_mappings
      lib_b_READ = Enum 65"
  by (simp add: enum_flag_bits_cast_def Permission_mappings_def)

text \<open>
  An entry intersects \<open>a | b\<close> exactly when it intersects \<open>a\<close> or \<open>b\<close>, so the loop
  distributes over \<open>operator_or\<close> when the three runs start from the same accumulator.
\<close>

lemma word_and_or_nonzero:
  "(s AND (a OR b) \<noteq> 0) = (s AND a \<noteq> 0 \<or> s AND b \<noteq> (0 :: 'a::len word))"
  by (simp add: bit.conj_disj_distrib or_eq_0_iff)

lemma enum_flag_bits_loop_union:
  "enum_flag_bits_loop get_src get_dst mappings (operator_or a b) dst =
     enum_flag_bits_loop get_src get_dst mappings a dst
       OR enum_flag_bits_loop get_src get_dst mappings b dst"
proof (induction mappings arbitrary: dst)
  case Nil
  show ?case by simp
next
  case (Cons m ms)
  let ?d = "underlying (get_dst m)"
  have acc: "\<And>x. enum_flag_bits_loop get_src get_dst ms x (dst OR ?d)
               = ?d OR enum_flag_bits_loop get_src get_dst ms x dst"
    by (subst enum_flag_bits_loop_accumulator,
        subst (2) enum_flag_bits_loop_accumulator) (simp add: ac_simps)
  show ?case
    using Cons.IH [of dst] Cons.IH [of "dst OR ?d"]
    by (simp add: operator_or_def word_and_or_nonzero acc ac_simps)
qed

lemma flag_union_same_accumulator:
  "enum_flag_bits_cast dst get_src get_dst mappings (operator_or a b) =
     operator_or (enum_flag_bits_cast dst get_src get_dst mappings a)
                 (enum_flag_bits_cast dst get_src get_dst mappings b)"
  unfolding enum_flag_bits_cast_def enum_flag_bits_loop_union by (simp add: operator_or_def)

text \<open>
  C6. Flag union, for the independent bits \<^verbatim>\<open>lib_b::READ\<close> and \<^verbatim>\<open>lib_b::WRITE\<close>,
  each with an entry of its own. The three conversions are three invocations, each with
  its own uninitialised accumulator: with \<^verbatim>\<open>0x40\<close> in the storage of the first and 0
  in the other two, the conversion of \<^verbatim>\<open>READ | WRITE\<close> is \<^verbatim>\<open>0x43\<close> and the OR of
  the two conversions is \<^verbatim>\<open>0x03\<close>.
\<close>

theorem flag_union_differing_accumulators:
  "enum_flag_bits_cast 64 get_lib_b_Permission get_lib_a_Permission Permission_mappings
      (operator_or lib_b_READ lib_b_WRITE) = Enum 67
   \<and> operator_or
        (enum_flag_bits_cast 0 get_lib_b_Permission get_lib_a_Permission Permission_mappings
           lib_b_READ)
        (enum_flag_bits_cast 0 get_lib_b_Permission get_lib_a_Permission Permission_mappings
           lib_b_WRITE) = Enum 3"
  by (simp add: enum_flag_bits_cast_def Permission_mappings_def operator_or_def)

text \<open>
  C9. \<open>operator_or\<close> is the OR of the underlying integers, wrapped again as the
  enumeration: the underlying representation of \<open>a | b\<close> is that of \<open>a\<close> ORed with
  that of \<open>b\<close>.
\<close>

theorem operator_or_underlying:
  "underlying (operator_or a b) = underlying a OR underlying b
   \<and> operator_or (Enum x) (Enum y) = Enum (x OR y)"
  by (simp add: operator_or_def)

text \<open>
  C10. An entry whose \<open>Src\<close>-slot has underlying representation 0 fails the AND test
  for every input and leaves the result as it is without the entry, wherever in the
  table it stands and whatever the accumulator held. In particular the first entry of
  the Permission table, \<^verbatim>\<open>{lib_a::None, lib_b::NONE}\<close>, is inert in both directions,
  for every input, the zero value included.
\<close>

theorem zero_source_slot_inert:
  "(underlying (get_src mapping) = 0 \<longrightarrow>
      underlying (get_src mapping) AND underlying v = 0
      \<and> enum_flag_bits_cast dst get_src get_dst (before @ mapping # after) v
          = enum_flag_bits_cast dst get_src get_dst (before @ after) v)
   \<and> enum_flag_bits_cast dst' get_lib_a_Permission get_lib_b_Permission Permission_mappings a
       = enum_flag_bits_cast dst' get_lib_a_Permission get_lib_b_Permission
           (tl Permission_mappings) a
   \<and> enum_flag_bits_cast dst'' get_lib_b_Permission get_lib_a_Permission Permission_mappings b
       = enum_flag_bits_cast dst'' get_lib_b_Permission get_lib_a_Permission
           (tl Permission_mappings) b"
  by (simp add: enum_flag_bits_cast_def enum_flag_bits_loop_append Permission_mappings_def)

theorem zero_source_slot_inert_witness:
  "underlying (get_lib_a_Permission (lib_a_None, lib_b_NONE)) = 0
   \<and> enum_flag_bits_cast 0 get_lib_a_Permission get_lib_b_Permission
        ([(lib_a_Read, lib_b_READ)] @ (lib_a_None, lib_b_NONE) # [(lib_a_Write, lib_b_WRITE)])
        lib_a_None
     = enum_flag_bits_cast 0 get_lib_a_Permission get_lib_b_Permission
        ([(lib_a_Read, lib_b_READ)] @ [(lib_a_Write, lib_b_WRITE)]) lib_a_None"
proof -
  have h: "underlying (get_lib_a_Permission (lib_a_None, lib_b_NONE)) = 0" by simp
  from zero_source_slot_inert [of get_lib_a_Permission "(lib_a_None, lib_b_NONE)" lib_a_None 0
      get_lib_b_Permission "[(lib_a_Read, lib_b_READ)]" "[(lib_a_Write, lib_b_WRITE)]"]
  have "underlying (get_lib_a_Permission (lib_a_None, lib_b_NONE)) = 0 \<longrightarrow>
      enum_flag_bits_cast 0 get_lib_a_Permission get_lib_b_Permission
        ([(lib_a_Read, lib_b_READ)] @ (lib_a_None, lib_b_NONE) # [(lib_a_Write, lib_b_WRITE)])
        lib_a_None
     = enum_flag_bits_cast 0 get_lib_a_Permission get_lib_b_Permission
        ([(lib_a_Read, lib_b_READ)] @ [(lib_a_Write, lib_b_WRITE)]) lib_a_None"
    by blast
  with h show ?thesis by blast
qed

section \<open>Category consistency\<close>

text \<open>
  C8. Instantiating either converter for a destination and a source enumeration of
  different categories fails the static assertion, with its message
  \<^verbatim>\<open>"Source and destination enums must be of the same category"\<close>, and yields no
  function: there is nothing to call at run time.
\<close>

theorem category_mismatch_fails_to_build:
  assumes "category_of Dst \<noteq> category_of Src"
  shows "instantiate_enum_cast category_of Dst Src get_src get_dst mappings
           = Inl (Static_assert_failed
               ''Source and destination enums must be of the same category'')
         \<and> instantiate_enum_flag_bits_cast category_of Dst Src get_src' get_dst' mappings'
           = Inl (Static_assert_failed
               ''Source and destination enums must be of the same category'')
         \<and> (\<forall>f. instantiate_enum_cast category_of Dst Src get_src get_dst mappings \<noteq> Inr f)
         \<and> (\<forall>g. instantiate_enum_flag_bits_cast category_of Dst Src get_src' get_dst' mappings'
               \<noteq> Inr g)"
  using assms
  by (auto simp add: instantiate_enum_cast_def instantiate_enum_flag_bits_cast_def
      static_assert_same_category_def)

text \<open>
  The witness instantiates both converters with destination \<^verbatim>\<open>lib_a::Shape\<close>
  and source \<^verbatim>\<open>lib_a::Color\<close>. A tuple of the source's
  category has no slot of the destination type, so the destination projection, which
  the failed instantiation never reaches, is a constant function here.
\<close>

theorem category_mismatch_fails_to_build_witness:
  "enum_category_t Lib_a_Shape \<noteq> enum_category_t Lib_a_Color
   \<and> instantiate_enum_cast enum_category_t Lib_a_Shape Lib_a_Color
        get_lib_a_Color (\<lambda>m. Enum 0 :: lib_a_Shape) Color_mappings
       = Inl (Static_assert_failed
           ''Source and destination enums must be of the same category'')
   \<and> instantiate_enum_flag_bits_cast enum_category_t Lib_a_Shape Lib_a_Color
        get_lib_a_Color (\<lambda>m. Enum 0 :: lib_a_Shape) Color_mappings
       = Inl (Static_assert_failed
           ''Source and destination enums must be of the same category'')"
proof -
  have h: "enum_category_t Lib_a_Shape \<noteq> enum_category_t Lib_a_Color" by simp
  from h category_mismatch_fails_to_build [of enum_category_t Lib_a_Shape Lib_a_Color
      get_lib_a_Color "\<lambda>m. Enum 0 :: lib_a_Shape" Color_mappings
      get_lib_a_Color "\<lambda>m. Enum 0 :: lib_a_Shape" Color_mappings, OF h]
  show ?thesis by blast
qed

end
